theory Spec2Isabelle
  imports Complex_Main "HOL-Library.Log_Nat"
begin

section \<open>The heartbeat agent of cost-effective-agent-heartbeat.py\<close>

text \<open>
  The class \<open>CostEffectiveAgent\<close> samples host metrics, resolves instance metadata,
  estimates a cost, posts a heartbeat and loops. Its methods are embedded below, one
  definition per method, with the answers of the operating system, of the network and of
  the console passed in explicitly.

  Numbers: a Python float is embedded as the rational it denotes (\<open>rat\<close>), and \<open>fl\<close>
  rounds a rational to the nearest double, so the quotient and the product of line 44
  are \<open>fl\<close> of the exact ones. \<open>round(x, n)\<close> is the exact value of \<open>x\<close> rounded to
  \<open>n\<close> decimals, ties to even; the double that CPython returns is the one nearest to
  this decimal and prints as it. The comparisons of the status bands are exact on
  floats. In \<open>calculate_cost\<close> the decimals of the table and their products are kept
  exact. Python's integers are \<open>int\<close>.
\<close>

subsection \<open>Exceptions\<close>

text \<open>
  Two classes of exception matter to the handlers of the source: \<open>KeyboardInterrupt\<close>,
  which \<open>except Exception\<close> does not catch, and everything derived from \<open>Exception\<close>
  (\<open>psutil.Error\<close>, \<open>requests.RequestException\<close>, \<open>ZeroDivisionError\<close>,
  \<open>ValueError\<close>, \<open>BrokenPipeError\<close>, ...), written \<open>Error\<close>. A call that may raise
  returns \<open>exn + 'a\<close>.
\<close>

datatype exn = KeyboardInterrupt | Error

definition bind_r :: "exn + 'a \<Rightarrow> ('a \<Rightarrow> exn + 'b) \<Rightarrow> exn + 'b" where
  "bind_r m f = (case m of Inl e \<Rightarrow> Inl e | Inr v \<Rightarrow> f v)"

text \<open>\<open>try: body  except Exception: handler\<close>, where the handler may raise in its turn.\<close>

definition except_Exception :: "exn + 'a \<Rightarrow> exn + 'a \<Rightarrow> exn + 'a" where
  "except_Exception body handler =
     (case body of
        Inl Error \<Rightarrow> handler
      | Inl KeyboardInterrupt \<Rightarrow> Inl KeyboardInterrupt
      | Inr v \<Rightarrow> Inr v)"

subsection \<open>Rounding\<close>

definition round_half_even :: "rat \<Rightarrow> int" where
  "round_half_even x =
     (let f = \<lfloor>x\<rfloor>; d = x - of_int f
      in if d < 1 / 2 then f
         else if 1 / 2 < d then f + 1
         else if even f then f else f + 1)"

text \<open>Python's \<open>round(x, n)\<close> for a float \<open>x\<close> and \<open>n \<ge> 0\<close>.\<close>

definition py_round :: "rat \<Rightarrow> nat \<Rightarrow> rat" where
  "py_round x n = of_int (round_half_even (x * 10 ^ n)) / 10 ^ n"

subsection \<open>Doubles\<close>

text \<open>
  A double has 53 significant bits, and its last bit weighs at least \<open>2 ^ -1074\<close>.
  \<open>ilog2 x\<close> is the exponent \<open>e\<close> with \<open>2 ^ e \<le> x < 2 ^ (e + 1)\<close> for a positive
  \<open>x\<close>; \<open>fl x\<close> is the multiple of the last bit's weight nearest to \<open>x\<close>, ties to the
  even significand. A result of \<open>2 ^ 1024\<close> or more is no double: the division of two
  integers raises \<open>OverflowError\<close> there.
\<close>

definition pow2 :: "int \<Rightarrow> rat" where
  "pow2 k = (if 0 \<le> k then 2 ^ nat k else 1 / 2 ^ nat (- k))"

definition ilog2 :: "rat \<Rightarrow> int" where
  "ilog2 x = (if 1 \<le> x then bitlen \<lfloor>x\<rfloor> - 1 else - bitlen (\<lceil>1 / x\<rceil> - 1))"

definition fl :: "rat \<Rightarrow> rat" where
  "fl x =
     (if x = 0 then 0
      else let u = pow2 (max (ilog2 \<bar>x\<bar> - 52) (- 1074))
           in of_int (round_half_even (x / u)) * u)"

text \<open>The magnitude is \<open>2 ^ 1024\<close> or more.\<close>

definition overflows :: "rat \<Rightarrow> bool" where
  "overflows x = (1024 \<le> ilog2 \<bar>x\<bar>)"

definition is_double :: "rat \<Rightarrow> bool" where
  "is_double x = (fl x = x \<and> \<not> overflows x)"

text \<open>\<open>a / b\<close> on Python integers: \<open>ZeroDivisionError\<close> when \<open>b\<close> is 0, otherwise the
  double nearest to the quotient.\<close>

definition true_div :: "int \<Rightarrow> int \<Rightarrow> exn + rat" where
  "true_div a b =
     (if b = 0 then Inl Error
      else let q = fl (of_int a / of_int b)
           in if overflows q then Inl Error else Inr q)"

subsection \<open>The agent\<close>

text \<open>
  The fields set by \<open>__init__\<close>. The four settings are read from the process
  environment there; they are parameters here. Both counters start at 0. The constructor
  then prints three lines; when one of them raises, there is no agent.
\<close>

record agent =
  agent_id :: string
  agent_type :: string
  dashboard_url :: string
  heartbeat_interval :: int
  tasks_completed :: int
  current_tasks :: int

definition init_agent :: "string \<Rightarrow> string \<Rightarrow> string \<Rightarrow> int \<Rightarrow> agent" where
  "init_agent aid atype url interval =
     \<lparr>agent_id = aid, agent_type = atype, dashboard_url = url,
      heartbeat_interval = interval, tasks_completed = 0, current_tasks = 0\<rparr>"

subsection \<open>calculate_cost\<close>

record cost_estimate =
  hourly :: rat
  daily :: rat
  monthly :: rat

definition cost_map :: "(string \<times> rat) list" where
  "cost_map =
     [(''t2.micro'', 0.0116),
      (''t2.small'', 0.023),
      (''t2.medium'', 0.046),
      (''t3.micro'', 0.0104),
      (''t3.small'', 0.0208),
      (''t3.medium'', 0.0416),
      (''m5.large'', 0.096),
      (''m5.xlarge'', 0.192),
      (''c5.large'', 0.085),
      (''c5.xlarge'', 0.17)]"

text \<open>\<open>cost_map.get(instance_type, 0.05)\<close>; \<open>None\<close> is not a key of the table.\<close>

definition hourly_rate :: "string option \<Rightarrow> rat" where
  "hourly_rate instance_type =
     (case instance_type of
        None \<Rightarrow> 0.05
      | Some t \<Rightarrow> (case map_of cost_map t of None \<Rightarrow> 0.05 | Some h \<Rightarrow> h))"

definition calculate_cost :: "string option \<Rightarrow> cost_estimate" where
  "calculate_cost instance_type =
     (let hourly = hourly_rate instance_type
      in \<lparr>hourly = py_round hourly 4,
          daily = py_round (hourly * 24) 2,
          monthly = py_round (hourly * 24 * 30) 2\<rparr>)"

subsection \<open>The status bands of send_heartbeat\<close>

datatype agent_status = idle | running | busy

text \<open>Lines 133 to 139 of \<open>send_heartbeat\<close>.\<close>

definition classify :: "rat \<Rightarrow> agent_status" where
  "classify cpu = (if cpu > 80 then busy else if cpu > 10 then running else idle)"

subsection \<open>The world of one heartbeat\<close>

text \<open>
  What the operating system, the network and the console answer during one pass of the
  loop: the four \<open>psutil\<close> queries, the metadata endpoint as a function of the URL
  requested, the host name, the clock, the outcome of the one POST to the dashboard, and
  the outcome of each \<open>print\<close>, by the line of the source it stands on (on a closed
  standard output a \<open>print\<close> raises \<open>BrokenPipeError\<close>).
\<close>

record http_response =
  status_code :: int
  response_text :: string
  json_parses :: bool

record world =
  cpu_percent :: "exn + rat"
  virtual_memory :: "exn + rat"
  disk_usage :: "exn + int \<times> int"
  net_io_counters :: "exn + int \<times> int"
  http_get :: "string \<Rightarrow> exn + http_response"
  gethostname :: string
  now_isoformat :: string
  http_post :: "exn + http_response"
  print_at :: "nat \<Rightarrow> exn + unit"

text \<open>\<open>response.json()\<close> raises a \<open>ValueError\<close> on a body that is not JSON.\<close>

definition response_json :: "http_response \<Rightarrow> exn + unit" where
  "response_json response = (if json_parses response then Inr () else Inl Error)"

subsection \<open>get_system_metrics\<close>

record system_metrics =
  cpuUsage :: rat
  memoryUsage :: rat
  diskUsage :: rat
  networkIn :: int
  networkOut :: int
  tasksCompleted :: int
  currentTasks :: int

text \<open>Line 44, \<open>(disk.used / disk.total) * 100\<close>: a division of integers, then a product of
  doubles.\<close>

definition disk_percent_of :: "int \<Rightarrow> int \<Rightarrow> exn + rat" where
  "disk_percent_of used tot = bind_r (true_div used tot) (\<lambda>q. Inr (fl (q * 100)))"

text \<open>The body of the \<open>try\<close>, lines 35 to 57; \<open>disk_usage\<close> answers (used, total) and
  \<open>net_io_counters\<close> answers (bytes_recv, bytes_sent).\<close>

definition sample_metrics :: "agent \<Rightarrow> world \<Rightarrow> exn + system_metrics" where
  "sample_metrics a w =
     bind_r (cpu_percent w) (\<lambda>cpu_pct.
     bind_r (virtual_memory w) (\<lambda>memory_percent.
     bind_r (disk_usage w) (\<lambda>(used, tot).
     bind_r (disk_percent_of used tot) (\<lambda>disk_percent.
     bind_r (net_io_counters w) (\<lambda>(bytes_recv, bytes_sent).
     Inr \<lparr>cpuUsage = py_round cpu_pct 2,
          memoryUsage = py_round memory_percent 2,
          diskUsage = py_round disk_percent 2,
          networkIn = bytes_recv,
          networkOut = bytes_sent,
          tasksCompleted = tasks_completed a,
          currentTasks = current_tasks a\<rparr>)))))"

text \<open>The handler, lines 58 to 68, prints and then returns the snapshot of zeros.\<close>

definition get_system_metrics :: "agent \<Rightarrow> world \<Rightarrow> exn + system_metrics" where
  "get_system_metrics a w =
     except_Exception (sample_metrics a w)
       (bind_r (print_at w 59) (\<lambda>_.
        Inr \<lparr>cpuUsage = 0,
             memoryUsage = 0,
             diskUsage = 0,
             networkIn = 0,
             networkOut = 0,
             tasksCompleted = tasks_completed a,
             currentTasks = current_tasks a\<rparr>))"

subsection \<open>get_instance_metadata\<close>

text \<open>
  The dictionary returned is an association list in the order of the literal; its values
  are \<open>None\<close>, a string or a list of strings. Both handlers of the method are bare
  \<open>except:\<close> clauses, so they catch every exception. Beside the dictionary the model
  returns the URLs requested, in order.
\<close>

datatype pyval = PyNone | PyStr string | PyList "string list"

type_synonym pydict = "(string \<times> pyval) list"

text \<open>\<open>d.get(k)\<close>\<close>

definition dict_get :: "pydict \<Rightarrow> string \<Rightarrow> pyval" where
  "dict_get d k = (case map_of d k of None \<Rightarrow> PyNone | Some v \<Rightarrow> v)"

definition metadata_url :: string where
  "metadata_url = ''http://169.254.169.254/latest/meta-data''"

definition get_instance_metadata :: "agent \<Rightarrow> world \<Rightarrow> pydict \<times> string list" where
  "get_instance_metadata a w =
     (case http_get w (metadata_url @ ''/instance-id'') of
        Inl _ \<Rightarrow>
          ([(''hostname'', PyStr (gethostname w)),
            (''agentType'', PyStr (agent_type a)),
            (''version'', PyStr ''1.0.0''),
            (''capabilities'', PyList [''task_execution'', ''code_generation'', ''monitoring''])],
           [metadata_url @ ''/instance-id''])
      | Inr response \<Rightarrow>
          (let instance_id =
                 (if status_code response = 200 then PyStr (response_text response) else PyNone);
               instance_type =
                 (case http_get w (metadata_url @ ''/instance-type'') of
                    Inl _ \<Rightarrow> PyNone
                  | Inr response \<Rightarrow>
                      if status_code response = 200 then PyStr (response_text response) else PyNone)
           in ([(''instanceId'', instance_id),
                (''instanceType'', instance_type),
                (''hostname'', PyStr (gethostname w)),
                (''agentType'', PyStr (agent_type a)),
                (''version'', PyStr ''1.0.0''),
                (''capabilities'', PyList [''task_execution'', ''code_generation'', ''monitoring''])],
               [metadata_url @ ''/instance-id'', metadata_url @ ''/instance-type''])))"

subsection \<open>send_heartbeat\<close>

record payload =
  status :: agent_status
  metrics :: system_metrics
  cost :: cost_estimate
  metadata :: pydict
  timestamp :: string

text \<open>The argument handed to \<open>calculate_cost\<close>: the text of the instance type, or
  \<open>None\<close> when the key is null or missing.\<close>

definition instance_type_arg :: "pyval \<Rightarrow> string option" where
  "instance_type_arg v = (case v of PyStr t \<Rightarrow> Some t | _ \<Rightarrow> None)"

text \<open>Lines 128 to 147: the payload that is posted.\<close>

definition build_payload :: "agent \<Rightarrow> world \<Rightarrow> exn + payload" where
  "build_payload a w =
     bind_r (get_system_metrics a w) (\<lambda>metrics.
     let metadata = fst (get_instance_metadata a w);
         cost = calculate_cost (instance_type_arg (dict_get metadata ''instanceType''));
         cpu = cpuUsage metrics;
         status = classify cpu
     in Inr \<lparr>status = status, metrics = metrics, cost = cost, metadata = metadata,
             timestamp = now_isoformat w\<rparr>)"

text \<open>
  The POST goes to \<open>{dashboard_url}/api/agents/{agent_id}/heartbeat\<close> with the payload as
  JSON body; what comes back is the \<open>http_post\<close> of the world. Each branch prints
  before it returns (lines 154, 157 and 161); the handler catches \<open>Exception\<close>.
\<close>

definition send_heartbeat :: "agent \<Rightarrow> world \<Rightarrow> exn + bool" where
  "send_heartbeat a w =
     except_Exception
       (bind_r (build_payload a w) (\<lambda>payload.
        bind_r (http_post w) (\<lambda>response.
        if status_code response = 200
        then bind_r (response_json response) (\<lambda>result.
             bind_r (print_at w 154) (\<lambda>_. Inr True))
        else bind_r (print_at w 157) (\<lambda>_. Inr False))))
       (bind_r (print_at w 161) (\<lambda>_. Inr False))"

subsection \<open>simulate_task_activity\<close>

text \<open>
  The three calls of \<open>random.random()\<close> are the three draws, in order. Each branch
  updates its counter and then prints (lines 169, 173 and 177); the result is the agent
  as the method leaves it, and the exception if a \<open>print\<close> raised one.
\<close>

definition simulate_task_activity ::
  "agent \<Rightarrow> world \<Rightarrow> rat \<times> rat \<times> rat \<Rightarrow> agent \<times> (exn + unit)" where
  "simulate_task_activity a w draws =
     (case draws of (r1, r2, r3) \<Rightarrow>
        (case (if r1 < 0.1
               then (a\<lparr>tasks_completed := tasks_completed a + 1\<rparr>, print_at w 169)
               else (a, Inr ())) of
           (a1, Inl x) \<Rightarrow> (a1, Inl x)
         | (a1, Inr _) \<Rightarrow>
        (case (if r2 < 0.05
               then (a1\<lparr>current_tasks := min (current_tasks a1 + 1) 5\<rparr>, print_at w 173)
               else (a1, Inr ())) of
           (a2, Inl x) \<Rightarrow> (a2, Inl x)
         | (a2, Inr _) \<Rightarrow>
        (if r3 < 0.08 \<and> current_tasks a2 > 0
         then (a2\<lparr>current_tasks := current_tasks a2 - 1\<rparr>, print_at w 177)
         else (a2, Inr ())))))"

subsection \<open>run\<close>

text \<open>
  \<open>time.sleep(secs)\<close> raises a \<open>ValueError\<close> for a negative duration. For any other
  duration the outcome is the environment's: the sleep returns, the interrupt arrives
  while it waits, or the operating system refuses the duration (\<open>OverflowError\<close>,
  \<open>OSError\<close>).
\<close>

definition time_sleep :: "int \<Rightarrow> exn + unit \<Rightarrow> exn + unit" where
  "time_sleep secs outcome = (if secs < 0 then Inl Error else outcome)"

text \<open>
  One pass of the \<open>while True\<close> loop sees a world, three random draws, and the outcomes
  of the sleep of the body and of the sleep of the handler.
\<close>

record iter_env =
  world_of :: world
  draws :: "rat \<times> rat \<times> rat"
  sleep_outcome :: "exn + unit"
  handler_sleep_outcome :: "exn + unit"

text \<open>How a pass ends: the loop goes on, the \<open>break\<close> is taken, or an exception leaves
  \<open>run\<close>.\<close>

datatype control = Continue | Break | Propagate exn

text \<open>The two \<open>except\<close> clauses of the loop, lines 197 to 202; the result carries the
  sleeps completed.\<close>

definition handle_exn :: "agent \<Rightarrow> iter_env \<Rightarrow> exn \<Rightarrow> agent \<times> int list \<times> control" where
  "handle_exn a e x =
     (case x of
        KeyboardInterrupt \<Rightarrow>
          (case print_at (world_of e) 198 of
             Inl y \<Rightarrow> (a, [], Propagate y)
           | Inr _ \<Rightarrow> (a, [], Break))
      | Error \<Rightarrow>
          (case print_at (world_of e) 201 of
             Inl y \<Rightarrow> (a, [], Propagate y)
           | Inr _ \<Rightarrow>
               (case time_sleep (heartbeat_interval a) (handler_sleep_outcome e) of
                  Inl y \<Rightarrow> (a, [], Propagate y)
                | Inr _ \<Rightarrow> (a, [heartbeat_interval a], Continue))))"

text \<open>The body of the \<open>try\<close>, lines 185 to 195.\<close>

definition iteration :: "agent \<Rightarrow> iter_env \<Rightarrow> agent \<times> int list \<times> control" where
  "iteration a e =
     (case send_heartbeat a (world_of e) of
        Inl x \<Rightarrow> handle_exn a e x
      | Inr success \<Rightarrow>
          (case simulate_task_activity a (world_of e) (draws e) of
             (a', Inl x) \<Rightarrow> handle_exn a' e x
           | (a', Inr _) \<Rightarrow>
               (case (if \<not> success then print_at (world_of e) 192 else Inr ()) of
                  Inl x \<Rightarrow> handle_exn a' e x
                | Inr _ \<Rightarrow>
                    (case time_sleep (heartbeat_interval a') (sleep_outcome e) of
                       Inl x \<Rightarrow> handle_exn a' e x
                     | Inr _ \<Rightarrow> (a', [heartbeat_interval a'], Continue)))))"

datatype loop_status = Running | Stopped | Crashed exn

text \<open>
  The loop over the passes the environment supplies: \<open>Running\<close> when all of them are
  used up and the loop is about to start the next one, \<open>Stopped\<close> after the
  \<open>break\<close>, \<open>Crashed\<close> when an exception left \<open>run\<close>.
\<close>

fun loop :: "agent \<Rightarrow> iter_env list \<Rightarrow> agent \<times> int list \<times> loop_status" where
  "loop a [] = (a, [], Running)"
| "loop a (e # es) =
     (case iteration a e of
        (a', sl, Continue) \<Rightarrow> (case loop a' es of (a'', sl', st) \<Rightarrow> (a'', sl @ sl', st))
      | (a', sl, Break) \<Rightarrow> (a', sl, Stopped)
      | (a', sl, Propagate x) \<Rightarrow> (a', sl, Crashed x))"

text \<open>\<open>run\<close> prints once (line 181, on the console of the first pass) and enters the
  loop.\<close>

fun run :: "agent \<Rightarrow> iter_env list \<Rightarrow> agent \<times> int list \<times> loop_status" where
  "run a [] = (a, [], Running)"
| "run a (e # es) =
     (case print_at (world_of e) 181 of
        Inl x \<Rightarrow> (a, [], Crashed x)
      | Inr _ \<Rightarrow> loop a (e # es))"

subsection \<open>Conditions on the world\<close>

text \<open>
  A sampling query fails when it raises an exception derived from \<open>Exception\<close>; a disk
  of total size 0 makes the division of line 44 fail in the same way.
\<close>

definition query_failed :: "world \<Rightarrow> bool" where
  "query_failed w =
     (cpu_percent w = Inl Error \<or> virtual_memory w = Inl Error \<or>
      (case disk_usage w of Inl x \<Rightarrow> x = Error | Inr (used, tot) \<Rightarrow> tot = 0) \<or>
      net_io_counters w = Inl Error)"

text \<open>The interrupt arrives during one of the sampling queries.\<close>

definition interrupted_sampling :: "world \<Rightarrow> bool" where
  "interrupted_sampling w =
     (cpu_percent w = Inl KeyboardInterrupt \<or> virtual_memory w = Inl KeyboardInterrupt \<or>
      disk_usage w = Inl KeyboardInterrupt \<or> net_io_counters w = Inl KeyboardInterrupt)"

text \<open>A metadata lookup fails by an exception (timeout, network error) or by an answer
  other than 200.\<close>

definition lookup_failed :: "exn + http_response \<Rightarrow> bool" where
  "lookup_failed r = (case r of Inl _ \<Rightarrow> True | Inr response \<Rightarrow> status_code response \<noteq> 200)"

text \<open>The interrupt arrives during the sampling or during the POST of a heartbeat.\<close>

definition interrupted_send :: "world \<Rightarrow> bool" where
  "interrupted_send w = (interrupted_sampling w \<or> http_post w = Inl KeyboardInterrupt)"

text \<open>The lines of the source that print, from \<open>get_system_metrics\<close> on; every one of
  them is written.\<close>

definition print_lines :: "nat list" where
  "print_lines = [59, 154, 157, 161, 169, 173, 177, 181, 192, 198, 201]"

definition logs_written :: "world \<Rightarrow> bool" where
  "logs_written w = list_all (\<lambda>n. print_at w n = Inr ()) print_lines"

text \<open>A pass without interrupt, with a console that works and sleeps that the operating
  system grants.\<close>

definition quiet :: "iter_env \<Rightarrow> bool" where
  "quiet e =
     (\<not> interrupted_send (world_of e) \<and> logs_written (world_of e) \<and>
      sleep_outcome e = Inr () \<and> handler_sleep_outcome e = Inr ())"

subsection \<open>Example inputs\<close>

text \<open>A host at 85 percent CPU on a \<open>t3.medium\<close> instance whose dashboard answers 200
  with a JSON body.\<close>

definition example_agent :: agent where
  "example_agent = init_agent ''agent-host'' ''developer'' ''http://localhost:4001'' 30"

definition example_endpoint :: "string \<Rightarrow> exn + http_response" where
  "example_endpoint url =
     (if url = metadata_url @ ''/instance-id''
      then Inr \<lparr>status_code = 200, response_text = ''i-0abc'', json_parses = False\<rparr>
      else if url = metadata_url @ ''/instance-type''
      then Inr \<lparr>status_code = 200, response_text = ''t3.medium'', json_parses = False\<rparr>
      else Inr \<lparr>status_code = 404, response_text = ''Not Found'', json_parses = False\<rparr>)"

definition example_world :: world where
  "example_world =
     \<lparr>cpu_percent = Inr 85,
      virtual_memory = Inr 50,
      disk_usage = Inr (30, 100),
      net_io_counters = Inr (1000, 2000),
      http_get = example_endpoint,
      gethostname = ''host'',
      now_isoformat = ''2024-01-01T00:00:00'',
      http_post = Inr \<lparr>status_code = 200, response_text = ''{}'', json_parses = True\<rparr>,
      print_at = (\<lambda>n. Inr ())\<rparr>"

definition example_payload :: payload where
  "example_payload =
     \<lparr>status = busy,
      metrics = \<lparr>cpuUsage = 85, memoryUsage = 50, diskUsage = 30, networkIn = 1000,
                 networkOut = 2000, tasksCompleted = 0, currentTasks = 0\<rparr>,
      cost = \<lparr>hourly = 0.0416, daily = 1, monthly = 29.95\<rparr>,
      metadata =
        [(''instanceId'', PyStr ''i-0abc''),
         (''instanceType'', PyStr ''t3.medium''),
         (''hostname'', PyStr ''host''),
         (''agentType'', PyStr ''developer''),
         (''version'', PyStr ''1.0.0''),
         (''capabilities'', PyList [''task_execution'', ''code_generation'', ''monitoring''])],
      timestamp = ''2024-01-01T00:00:00''\<rparr>"

text \<open>The same host with the memory query failing, with a disk of size 0, and with the
  memory query failing while the standard output is closed.\<close>

definition busy_agent :: agent where
  "busy_agent = example_agent\<lparr>tasks_completed := 3, current_tasks := 2\<rparr>"

definition no_memory_world :: world where
  "no_memory_world = example_world\<lparr>virtual_memory := Inl Error\<rparr>"

definition no_disk_world :: world where
  "no_disk_world = example_world\<lparr>disk_usage := Inr (0, 0)\<rparr>"

definition closed_stdout :: "nat \<Rightarrow> exn + unit" where
  "closed_stdout n = Inl Error"

definition mute_world :: world where
  "mute_world = no_memory_world\<lparr>print_at := closed_stdout\<rparr>"

text \<open>Readings that are doubles with more than two decimals, the second on a tie, and a
  disk whose exact percentage, 2.675, is a tie that the doubles do not see.\<close>

definition fine_world :: world where
  "fine_world =
     example_world\<lparr>cpu_percent := Inr 12.34375, virtual_memory := Inr 47.125,
       disk_usage := Inr (535, 20000), net_io_counters := Inr (123456789, 987654321)\<rparr>"

text \<open>A host without metadata endpoint, and one whose endpoint knows the instance id
  only.\<close>

definition unreachable_endpoint :: "string \<Rightarrow> exn + http_response" where
  "unreachable_endpoint url = Inl Error"

definition id_only_endpoint :: "string \<Rightarrow> exn + http_response" where
  "id_only_endpoint url =
     (if url = metadata_url @ ''/instance-id''
      then Inr \<lparr>status_code = 200, response_text = ''i-0abc'', json_parses = False\<rparr>
      else Inr \<lparr>status_code = 404, response_text = ''Not Found'', json_parses = False\<rparr>)"







text \<open>A pass of the loop in which nothing goes wrong, and an agent configured with the
  interval -1.\<close>

definition quiet_pass :: iter_env where
  "quiet_pass =
     \<lparr>world_of = example_world, draws = (0.5, 0.01, 0.5),
      sleep_outcome = Inr (), handler_sleep_outcome = Inr ()\<rparr>"

definition negative_agent :: agent where
  "negative_agent = init_agent ''agent-host'' ''developer'' ''http://localhost:4001'' (- 1)"

section \<open>Properties\<close>

subsection \<open>Rounding\<close>

lemma floor_rat_numeral: "\<lfloor>numeral a / numeral b :: rat\<rfloor> = numeral a div numeral b"
  using floor_divide_of_int_eq [of "numeral a" "numeral b", where ?'a = rat] by simp

lemmas round_eval = py_round_def round_half_even_def Let_def floor_rat_numeral

lemma round_half_even_near: "\<bar>of_int (round_half_even x) - x\<bar> \<le> 1 / 2"
proof -
  have "of_int \<lfloor>x\<rfloor> \<le> x" and "x < of_int \<lfloor>x\<rfloor> + 1"
    by linarith+
  then show ?thesis
    by (auto simp: round_half_even_def Let_def)
qed

lemma round_half_even_nonneg: "0 \<le> x \<Longrightarrow> 0 \<le> round_half_even x"
proof -
  assume "0 \<le> x"
  then have "0 \<le> \<lfloor>x\<rfloor>" by simp
  then show ?thesis
    by (auto simp: round_half_even_def Let_def)
qed

lemma py_round_near: "\<bar>py_round x n - x\<bar> \<le> 1 / (2 * 10 ^ n)"
proof -
  have "py_round x n - x = (of_int (round_half_even (x * 10 ^ n)) - x * 10 ^ n) / 10 ^ n"
    by (simp add: py_round_def diff_divide_distrib)
  then have "\<bar>py_round x n - x\<bar>
      = \<bar>of_int (round_half_even (x * 10 ^ n)) - x * 10 ^ n\<bar> / 10 ^ n"
    by simp
  also have "\<dots> \<le> (1 / 2) / 10 ^ n"
    by (rule divide_right_mono [OF round_half_even_near]) simp
  finally show ?thesis by simp
qed

lemma py_round_nonneg: "0 \<le> x \<Longrightarrow> 0 \<le> py_round x n"
  by (simp add: py_round_def round_half_even_nonneg)

lemma py_round_decimals: "py_round x n * 10 ^ n \<in> \<int>"
  by (simp add: py_round_def)

subsection \<open>The cost table\<close>

lemma cost_map_keys: "distinct (map fst cost_map)"
  by (simp add: cost_map_def)

lemma hourly_rate_range: "hourly_rate t \<in> set (0.05 # map snd cost_map)"
  by (auto simp: hourly_rate_def split: option.splits dest!: map_of_SomeD intro: rev_image_eqI)

lemma table_rates_exact: "\<forall>h \<in> set (0.05 # map snd cost_map). py_round h 4 = h \<and> 0 \<le> h"
  by (simp add: cost_map_def round_eval)

lemma hourly_field: "hourly (calculate_cost t) = hourly_rate t"
proof -
  have "py_round (hourly_rate t) 4 = hourly_rate t"
    using hourly_rate_range [of t] table_rates_exact by blast
  then show ?thesis
    by (simp add: calculate_cost_def Let_def)
qed

lemma hourly_rate_nonneg: "0 \<le> hourly_rate t"
  using hourly_rate_range [of t] table_rates_exact by blast

subsection \<open>Doubles\<close>

lemma pow2_pos: "0 < pow2 k"
  by (simp add: pow2_def)

lemma pow2_neg_le_1: "k \<le> 0 \<Longrightarrow> pow2 k \<le> 1"
  by (simp add: pow2_def divide_le_eq_1)

lemma bitlen_1: "bitlen 1 = 1"
  by (subst compute_bitlen) simp

lemma ilog2_small: "x < 2 \<Longrightarrow> ilog2 x \<le> 0"
proof (cases "1 \<le> x")
  case True
  assume "x < 2"
  with True have "\<lfloor>x\<rfloor> = 1"
    by (simp add: floor_eq_iff)
  with True show ?thesis
    by (simp add: ilog2_def bitlen_1)
next
  case False
  then show ?thesis
    by (simp add: ilog2_def bitlen_nonneg)
qed

lemma fl_unit:
  assumes "0 \<le> x" and "x \<le> 1"
  shows "0 \<le> fl x \<and> fl x < 2"
proof (cases "x = 0")
  case True
  then show ?thesis by (simp add: fl_def)
next
  case False
  define u where "u = pow2 (max (ilog2 \<bar>x\<bar> - 52) (- 1074))"
  have "ilog2 \<bar>x\<bar> \<le> 0"
    using assms by (intro ilog2_small) simp
  then have u: "0 < u" "u \<le> 1"
    by (simp_all add: u_def pow2_pos pow2_neg_le_1)
  have f: "fl x = of_int (round_half_even (x / u)) * u"
    using False by (simp add: fl_def u_def Let_def)
  have "0 \<le> x / u"
    using assms(1) u(1) by simp
  then have lo: "0 \<le> fl x"
    using u(1) by (simp add: f round_half_even_nonneg)
  have "of_int (round_half_even (x / u)) \<le> x / u + 1 / 2"
    using round_half_even_near [of "x / u"] by linarith
  then have "of_int (round_half_even (x / u)) * u \<le> (x / u + 1 / 2) * u"
    using u(1) by (simp add: mult_right_mono)
  also have "\<dots> = x + u / 2"
    using u(1) by (simp add: distrib_right)
  also have "\<dots> < 2"
    using assms(2) u(2) by linarith
  finally show ?thesis using lo by (simp add: f)
qed

lemma true_div_unit:
  assumes "0 \<le> a" and "a \<le> b" and "0 < b"
  shows "true_div a b = Inr (fl (of_int a / of_int b))"
proof -
  have "0 \<le> (of_int a / of_int b :: rat)" and "(of_int a / of_int b :: rat) \<le> 1"
    using assms by simp_all
  then have r: "0 \<le> fl (of_int a / of_int b) \<and> fl (of_int a / of_int b) < 2"
    by (rule fl_unit)
  then have "ilog2 \<bar>fl (of_int a / of_int b)\<bar> \<le> 0"
    by (intro ilog2_small) simp
  then have "\<not> overflows (fl (of_int a / of_int b))"
    by (simp add: overflows_def)
  then show ?thesis
    using assms(3) by (simp add: true_div_def Let_def)
qed

lemma true_div_no_interrupt: "true_div a b \<noteq> Inl KeyboardInterrupt"
  by (simp add: true_div_def Let_def)

lemma disk_percent_no_interrupt: "disk_percent_of a b \<noteq> Inl KeyboardInterrupt"
  using true_div_no_interrupt [of a b]
  by (cases "true_div a b") (simp_all add: disk_percent_of_def bind_r_def)

lemma disk_percent_zero: "disk_percent_of a 0 = Inl Error"
  by (simp add: disk_percent_of_def true_div_def bind_r_def)

lemma disk_percent_unit:
  "0 \<le> a \<Longrightarrow> a \<le> b \<Longrightarrow> 0 < b \<Longrightarrow>
   disk_percent_of a b = Inr (fl (fl (of_int a / of_int b) * 100))"
  by (simp add: disk_percent_of_def true_div_unit bind_r_def)

lemma example_disk: "disk_percent_of 30 100 = Inr 30"
  by code_simp

lemma tie_disk: "py_round (fl (fl (of_int 535 / of_int 20000) * 100)) 2 = 2.67"
  by code_simp

lemma example_doubles: "is_double 12.34375" "is_double 47.125"
  by code_simp+

subsection \<open>The sampler\<close>

lemma sample_metrics_no_interrupt:
  "\<not> interrupted_sampling w \<Longrightarrow> sample_metrics a w \<noteq> Inl KeyboardInterrupt"
  using disk_percent_no_interrupt
  by (auto simp: sample_metrics_def bind_r_def interrupted_sampling_def
      split: sum.splits prod.splits)

lemma sample_metrics_failed:
  assumes "query_failed w" and "\<not> interrupted_sampling w"
  shows "sample_metrics a w = Inl Error"
proof -
  have "\<And>m. sample_metrics a w \<noteq> Inr m"
    using assms(1) disk_percent_zero
    by (auto simp: sample_metrics_def bind_r_def query_failed_def split: sum.splits prod.splits)
  moreover note sample_metrics_no_interrupt [OF assms(2), of a]
  ultimately show ?thesis
    by (cases "sample_metrics a w") (auto intro: exn.exhaust)
qed

lemma get_system_metrics_returns:
  assumes "\<not> interrupted_sampling w" and "print_at w 59 = Inr ()"
  shows "\<exists>m. get_system_metrics a w = Inr m"
  using sample_metrics_no_interrupt [OF assms(1), of a] assms(2)
  by (cases "sample_metrics a w")
    (auto simp: get_system_metrics_def except_Exception_def bind_r_def split: exn.splits)

lemma example_payload_built: "build_payload example_agent example_world = Inr example_payload"
  by (simp add: build_payload_def get_system_metrics_def sample_metrics_def bind_r_def
      except_Exception_def example_disk example_world_def example_agent_def init_agent_def
      get_instance_metadata_def example_endpoint_def metadata_url_def dict_get_def
      instance_type_arg_def calculate_cost_def hourly_rate_def cost_map_def classify_def
      example_payload_def round_eval)

subsection \<open>Claims\<close>

text \<open>
  C1. The status is a function of the CPU figure of the payload alone: \<open>idle\<close> on
  [0, 10], \<open>running\<close> on (10, 80], \<open>busy\<close> on (80, 100]; the bounds 10 and 80 belong
  to the lower band.
\<close>

theorem status_bands:
  "(0 \<le> cpu \<and> cpu \<le> 10 \<longrightarrow> classify cpu = idle) \<and>
   (10 < cpu \<and> cpu \<le> 80 \<longrightarrow> classify cpu = running) \<and>
   (80 < cpu \<and> cpu \<le> 100 \<longrightarrow> classify cpu = busy) \<and>
   (build_payload a w = Inr p \<longrightarrow> status p = classify (cpuUsage (metrics p)))"
  by (auto simp: classify_def build_payload_def bind_r_def Let_def split: sum.splits)

theorem status_bands_witness:
  "(0::rat) \<le> 10 \<and> (10::rat) \<le> 10 \<and> classify 10 = idle \<and>
   (10::rat) < 80 \<and> (80::rat) \<le> 80 \<and> classify 80 = running \<and>
   (80::rat) < 100 \<and> (100::rat) \<le> 100 \<and> classify 100 = busy \<and>
   build_payload example_agent example_world = Inr example_payload \<and>
   status example_payload = classify (cpuUsage (metrics example_payload))"
  using status_bands [of 10 example_agent example_world example_payload]
    status_bands [of 80 example_agent example_world example_payload]
    status_bands [of 100 example_agent example_world example_payload]
    example_payload_built
  by simp

text \<open>
  C2. For a type of the table with rate \<open>H\<close> the estimate is \<open>round(H, 4)\<close>,
  \<open>round(H * 24, 2)\<close> and \<open>round(H * 24 * 30, 2)\<close>; for a type that is not in the
  table, and for no type at all, the same with the rate 0.05.
\<close>

theorem calculate_cost_rates:
  "((T, H) \<in> set cost_map \<longrightarrow>
      calculate_cost (Some T) =
        \<lparr>hourly = py_round H 4, daily = py_round (H * 24) 2,
         monthly = py_round (H * 24 * 30) 2\<rparr>) \<and>
   (t = None \<or> (\<exists>s. t = Some s \<and> s \<notin> fst ` set cost_map) \<longrightarrow>
      calculate_cost t =
        \<lparr>hourly = py_round 0.05 4, daily = py_round (0.05 * 24) 2,
         monthly = py_round (0.05 * 24 * 30) 2\<rparr>)"
proof (intro conjI impI)
  assume "(T, H) \<in> set cost_map"
  then have "map_of cost_map T = Some H"
    using cost_map_keys by simp
  then show "calculate_cost (Some T) =
      \<lparr>hourly = py_round H 4, daily = py_round (H * 24) 2,
       monthly = py_round (H * 24 * 30) 2\<rparr>"
    by (simp add: calculate_cost_def hourly_rate_def)
next
  assume "t = None \<or> (\<exists>s. t = Some s \<and> s \<notin> fst ` set cost_map)"
  then have h: "hourly_rate t = 0.05"
  proof
    assume "t = None"
    then show ?thesis by (simp add: hourly_rate_def)
  next
    assume "\<exists>s. t = Some s \<and> s \<notin> fst ` set cost_map"
    then obtain s where "t = Some s" and "map_of cost_map s = None"
      by (auto simp: map_of_eq_None_iff)
    then show ?thesis by (simp add: hourly_rate_def)
  qed
  show "calculate_cost t =
      \<lparr>hourly = py_round 0.05 4, daily = py_round (0.05 * 24) 2,
       monthly = py_round (0.05 * 24 * 30) 2\<rparr>"
    by (simp only: calculate_cost_def Let_def h)
qed

theorem calculate_cost_rates_witness:
  "(''t3.medium'', 0.0416) \<in> set cost_map \<and>
   calculate_cost (Some ''t3.medium'') = \<lparr>hourly = 0.0416, daily = 1, monthly = 29.95\<rparr> \<and>
   ''x9.huge'' \<notin> fst ` set cost_map \<and>
   calculate_cost (Some ''x9.huge'') = \<lparr>hourly = 0.05, daily = 1.2, monthly = 36\<rparr> \<and>
   calculate_cost None = \<lparr>hourly = 0.05, daily = 1.2, monthly = 36\<rparr>"
proof -
  have m: "(''t3.medium'', 0.0416) \<in> set cost_map"
    by (simp add: cost_map_def)
  have u: "''x9.huge'' \<notin> fst ` set cost_map"
    by (simp add: cost_map_def)
  show ?thesis
    using m u calculate_cost_rates [of "''t3.medium''" "0.0416" None]
      calculate_cost_rates [of "''t3.medium''" "0.0416" "Some ''x9.huge''"]
    by (simp add: round_eval)
qed

text \<open>
  C3, as the claim is stated: on \<open>t3.medium\<close> the estimate is 0.0416, 1.0 and 29.95, so
  \<open>daily\<close> is not \<open>hourly * 24\<close> and \<open>monthly\<close> is not \<open>daily * 30\<close>.
\<close>

theorem cost_fields_counterexample:
  "daily (calculate_cost (Some ''t3.medium'')) \<noteq> hourly (calculate_cost (Some ''t3.medium'')) * 24 \<and>
   monthly (calculate_cost (Some ''t3.medium'')) \<noteq> daily (calculate_cost (Some ''t3.medium'')) * 30"
  by (simp add: calculate_cost_def hourly_rate_def cost_map_def round_eval)

text \<open>
  C3, amended. For every instance type: \<open>daily\<close> is \<open>hourly * 24\<close> rounded to two
  decimals and \<open>monthly\<close> is \<open>hourly * 24 * 30\<close> rounded to two decimals, each within
  0.005 of the product it rounds, and the three fields are not negative.
\<close>

theorem cost_fields_rounded:
  "daily (calculate_cost t) = py_round (hourly (calculate_cost t) * 24) 2 \<and>
   monthly (calculate_cost t) = py_round (hourly (calculate_cost t) * 24 * 30) 2 \<and>
   \<bar>daily (calculate_cost t) - hourly (calculate_cost t) * 24\<bar> \<le> 0.005 \<and>
   \<bar>monthly (calculate_cost t) - hourly (calculate_cost t) * 24 * 30\<bar> \<le> 0.005 \<and>
   0 \<le> hourly (calculate_cost t) \<and> 0 \<le> daily (calculate_cost t) \<and>
   0 \<le> monthly (calculate_cost t)"
proof -
  let ?h = "hourly_rate t"
  have d: "daily (calculate_cost t) = py_round (?h * 24) 2"
    and m: "monthly (calculate_cost t) = py_round (?h * 24 * 30) 2"
    by (simp_all add: calculate_cost_def Let_def)
  have "\<bar>py_round (?h * 24) 2 - ?h * 24\<bar> \<le> 0.005"
    using py_round_near [of "?h * 24" 2] by simp
  moreover have "\<bar>py_round (?h * 24 * 30) 2 - ?h * 24 * 30\<bar> \<le> 0.005"
    using py_round_near [of "?h * 24 * 30" 2] by simp
  moreover have "0 \<le> py_round (?h * 24) 2" "0 \<le> py_round (?h * 24 * 30) 2"
    using hourly_rate_nonneg [of t] by (simp_all add: py_round_nonneg)
  ultimately show ?thesis
    using hourly_rate_nonneg [of t] by (simp add: d m hourly_field)
qed

text \<open>
  C4, as the claim is stated: the memory query fails while the standard output is closed;
  the \<open>print\<close> of the handler raises, and the sampler returns no snapshot.
\<close>

theorem sampling_failure_counterexample:
  "query_failed mute_world \<and> \<not> interrupted_sampling mute_world \<and>
   get_system_metrics busy_agent mute_world = Inl Error"
  by (simp add: query_failed_def interrupted_sampling_def get_system_metrics_def
      sample_metrics_def except_Exception_def bind_r_def mute_world_def no_memory_world_def
      example_world_def closed_stdout_def)

text \<open>
  C4, amended. When a query fails, no interrupt arrives and the line of the handler is
  printed, the sampler returns the snapshot whose five sampled fields are 0 and whose two
  counters are those of the agent; and an exception derived from \<open>Exception\<close> leaves the
  sampler only when that \<open>print\<close> raises it.
\<close>

theorem sampling_failure_zero:
  "(query_failed w \<and> \<not> interrupted_sampling w \<and> print_at w 59 = Inr () \<longrightarrow>
      get_system_metrics a w =
        Inr \<lparr>cpuUsage = 0, memoryUsage = 0, diskUsage = 0, networkIn = 0, networkOut = 0,
             tasksCompleted = tasks_completed a, currentTasks = current_tasks a\<rparr>) \<and>
   (get_system_metrics a w = Inl Error \<longrightarrow> print_at w 59 = Inl Error)"
proof (intro conjI impI)
  assume "query_failed w \<and> \<not> interrupted_sampling w \<and> print_at w 59 = Inr ()"
  then show "get_system_metrics a w =
      Inr \<lparr>cpuUsage = 0, memoryUsage = 0, diskUsage = 0, networkIn = 0, networkOut = 0,
           tasksCompleted = tasks_completed a, currentTasks = current_tasks a\<rparr>"
    using sample_metrics_failed [of w a]
    by (simp add: get_system_metrics_def except_Exception_def bind_r_def)
next
  assume "get_system_metrics a w = Inl Error"
  then show "print_at w 59 = Inl Error"
    by (auto simp: get_system_metrics_def except_Exception_def bind_r_def
        split: sum.splits exn.splits)
qed

theorem sampling_failure_zero_witness:
  "query_failed no_memory_world \<and> \<not> interrupted_sampling no_memory_world \<and>
   print_at no_memory_world 59 = Inr () \<and>
   get_system_metrics busy_agent no_memory_world =
     Inr \<lparr>cpuUsage = 0, memoryUsage = 0, diskUsage = 0, networkIn = 0, networkOut = 0,
          tasksCompleted = 3, currentTasks = 2\<rparr> \<and>
   query_failed no_disk_world \<and> \<not> interrupted_sampling no_disk_world \<and>
   print_at no_disk_world 59 = Inr () \<and>
   get_system_metrics busy_agent no_disk_world =
     Inr \<lparr>cpuUsage = 0, memoryUsage = 0, diskUsage = 0, networkIn = 0, networkOut = 0,
          tasksCompleted = 3, currentTasks = 2\<rparr> \<and>
   get_system_metrics busy_agent mute_world = Inl Error \<and>
   print_at mute_world 59 = Inl Error"
proof -
  have f: "query_failed no_memory_world" "query_failed no_disk_world"
    by (simp_all add: query_failed_def no_memory_world_def no_disk_world_def example_world_def)
  have i: "\<not> interrupted_sampling no_memory_world" "\<not> interrupted_sampling no_disk_world"
    by (simp_all add: interrupted_sampling_def no_memory_world_def no_disk_world_def
        example_world_def)
  have p: "print_at no_memory_world 59 = Inr ()" "print_at no_disk_world 59 = Inr ()"
    by (simp_all add: no_memory_world_def no_disk_world_def example_world_def)
  have c: "tasks_completed busy_agent = 3" "current_tasks busy_agent = 2"
    by (simp_all add: busy_agent_def)
  have m: "get_system_metrics busy_agent mute_world = Inl Error"
    by (simp add: get_system_metrics_def sample_metrics_def except_Exception_def bind_r_def
        mute_world_def no_memory_world_def example_world_def closed_stdout_def)
  show ?thesis
    using f i p m sampling_failure_zero [of no_memory_world busy_agent]
      sampling_failure_zero [of no_disk_world busy_agent]
      sampling_failure_zero [of mute_world busy_agent]
    by (simp add: c)
qed

text \<open>
  C9. When every query succeeds, with readings that are doubles and a disk that uses no
  more than its size, the snapshot holds the CPU and memory readings and the disk
  percentage of line 44, computed in doubles, each rounded to two decimals (a hundred
  times each is a whole number), and the two byte counters as the operating system gave
  them.
\<close>

theorem sampling_success_rounded:
  assumes "cpu_percent w = Inr c" and "is_double c"
    and "virtual_memory w = Inr m" and "is_double m"
    and "disk_usage w = Inr (used, tot)" and "0 \<le> used" and "used \<le> tot" and "0 < tot"
    and "net_io_counters w = Inr (recv, sent)"
  shows "get_system_metrics a w =
           Inr \<lparr>cpuUsage = py_round c 2,
                memoryUsage = py_round m 2,
                diskUsage = py_round (fl (fl (of_int used / of_int tot) * 100)) 2,
                networkIn = recv, networkOut = sent,
                tasksCompleted = tasks_completed a, currentTasks = current_tasks a\<rparr> \<and>
         py_round c 2 * 100 \<in> \<int> \<and> py_round m 2 * 100 \<in> \<int> \<and>
         py_round (fl (fl (of_int used / of_int tot) * 100)) 2 * 100 \<in> \<int>"
proof -
  have "disk_percent_of used tot = Inr (fl (fl (of_int used / of_int tot) * 100))"
    using assms(6-8) by (rule disk_percent_unit)
  then have "sample_metrics a w =
      Inr \<lparr>cpuUsage = py_round c 2,
           memoryUsage = py_round m 2,
           diskUsage = py_round (fl (fl (of_int used / of_int tot) * 100)) 2,
           networkIn = recv, networkOut = sent,
           tasksCompleted = tasks_completed a, currentTasks = current_tasks a\<rparr>"
    using assms(1,3,5,9) by (simp add: sample_metrics_def bind_r_def)
  then have "get_system_metrics a w =
      Inr \<lparr>cpuUsage = py_round c 2,
           memoryUsage = py_round m 2,
           diskUsage = py_round (fl (fl (of_int used / of_int tot) * 100)) 2,
           networkIn = recv, networkOut = sent,
           tasksCompleted = tasks_completed a, currentTasks = current_tasks a\<rparr>"
    by (simp add: get_system_metrics_def except_Exception_def)
  moreover have "py_round x 2 * 100 \<in> \<int>" for x
    using py_round_decimals [of x 2] by simp
  ultimately show ?thesis by simp
qed

theorem sampling_success_rounded_witness:
  "cpu_percent fine_world = Inr 12.34375 \<and> is_double 12.34375 \<and>
   virtual_memory fine_world = Inr 47.125 \<and> is_double 47.125 \<and>
   disk_usage fine_world = Inr (535, 20000) \<and> (0::int) \<le> 535 \<and> (535::int) \<le> 20000 \<and>
   (0::int) < 20000 \<and>
   net_io_counters fine_world = Inr (123456789, 987654321) \<and>
   get_system_metrics busy_agent fine_world =
     Inr \<lparr>cpuUsage = 12.34, memoryUsage = 47.12, diskUsage = 2.67,
          networkIn = 123456789, networkOut = 987654321,
          tasksCompleted = 3, currentTasks = 2\<rparr>"
proof -
  have w: "cpu_percent fine_world = Inr 12.34375" "virtual_memory fine_world = Inr 47.125"
    "disk_usage fine_world = Inr (535, 20000)"
    "net_io_counters fine_world = Inr (123456789, 987654321)"
    by (simp_all add: fine_world_def example_world_def)
  have n: "(0::int) \<le> 535" "(535::int) \<le> 20000" "(0::int) < 20000"
    by simp_all
  have c: "tasks_completed busy_agent = 3" "current_tasks busy_agent = 2"
    by (simp_all add: busy_agent_def)
  have r: "py_round 12.34375 2 = 12.34" "py_round 47.125 2 = 47.12"
    by (simp_all add: round_eval)
  have "get_system_metrics busy_agent fine_world =
      Inr \<lparr>cpuUsage = py_round 12.34375 2,
           memoryUsage = py_round 47.125 2,
           diskUsage = py_round (fl (fl (of_int 535 / of_int 20000) * 100)) 2,
           networkIn = 123456789, networkOut = 987654321,
           tasksCompleted = tasks_completed busy_agent,
           currentTasks = current_tasks busy_agent\<rparr>"
    using sampling_success_rounded
      [OF w(1) example_doubles(1) w(2) example_doubles(2) w(3) n w(4), of busy_agent]
    by (rule conjunct1)
  then have "get_system_metrics busy_agent fine_world =
      Inr \<lparr>cpuUsage = 12.34, memoryUsage = 47.12, diskUsage = 2.67,
           networkIn = 123456789, networkOut = 987654321,
           tasksCompleted = 3, currentTasks = 2\<rparr>"
    by (simp only: r tie_disk c)
  with w n example_doubles show ?thesis by simp
qed

text \<open>
  C8. A lookup that fails leaves its field null or absent, each of the two URLs is
  requested at most once in a call, and the resolver returns a dictionary whatever the
  endpoint does.
\<close>

theorem metadata_lookup_failure:
  "(lookup_failed (http_get w (metadata_url @ ''/instance-id'')) \<longrightarrow>
      map_of (fst (get_instance_metadata a w)) ''instanceId'' \<in> {None, Some PyNone}) \<and>
   (lookup_failed (http_get w (metadata_url @ ''/instance-type'')) \<longrightarrow>
      map_of (fst (get_instance_metadata a w)) ''instanceType'' \<in> {None, Some PyNone}) \<and>
   distinct (snd (get_instance_metadata a w)) \<and>
   set (snd (get_instance_metadata a w))
     \<subseteq> {metadata_url @ ''/instance-id'', metadata_url @ ''/instance-type''}"
  by (auto simp: get_instance_metadata_def lookup_failed_def Let_def split: sum.splits)

theorem metadata_lookup_failure_witness:
  "lookup_failed (unreachable_endpoint (metadata_url @ ''/instance-id'')) \<and>
   lookup_failed (unreachable_endpoint (metadata_url @ ''/instance-type'')) \<and>
   map_of (fst (get_instance_metadata example_agent
     (example_world\<lparr>http_get := unreachable_endpoint\<rparr>))) ''instanceId'' = None \<and>
   map_of (fst (get_instance_metadata example_agent
     (example_world\<lparr>http_get := unreachable_endpoint\<rparr>))) ''instanceType'' = None \<and>
   lookup_failed (id_only_endpoint (metadata_url @ ''/instance-type'')) \<and>
   map_of (fst (get_instance_metadata example_agent
     (example_world\<lparr>http_get := id_only_endpoint\<rparr>))) ''instanceType'' = Some PyNone"
  using metadata_lookup_failure [of "example_world\<lparr>http_get := unreachable_endpoint\<rparr>" example_agent]
    metadata_lookup_failure [of "example_world\<lparr>http_get := id_only_endpoint\<rparr>" example_agent]
  by (simp add: lookup_failed_def unreachable_endpoint_def id_only_endpoint_def
      get_instance_metadata_def metadata_url_def)

text \<open>
  C10. On both branches of the resolver the dictionary holds the host name, the agent
  type of the configuration, the version 1.0.0 and the three capabilities.
\<close>

theorem metadata_fixed_fields:
  "map_of (fst (get_instance_metadata a w)) ''hostname'' = Some (PyStr (gethostname w)) \<and>
   map_of (fst (get_instance_metadata a w)) ''agentType'' = Some (PyStr (agent_type a)) \<and>
   map_of (fst (get_instance_metadata a w)) ''version'' = Some (PyStr ''1.0.0'') \<and>
   map_of (fst (get_instance_metadata a w)) ''capabilities''
     = Some (PyList [''task_execution'', ''code_generation'', ''monitoring''])"
  by (simp add: get_instance_metadata_def Let_def split: sum.splits)

subsection \<open>The heartbeat and the loop\<close>

lemma logs_written_lines:
  assumes "logs_written w"
  shows "print_at w 59 = Inr ()" "print_at w 154 = Inr ()" "print_at w 157 = Inr ()"
    "print_at w 161 = Inr ()" "print_at w 169 = Inr ()" "print_at w 173 = Inr ()"
    "print_at w 177 = Inr ()" "print_at w 181 = Inr ()" "print_at w 192 = Inr ()"
    "print_at w 198 = Inr ()" "print_at w 201 = Inr ()"
  using assms by (simp_all add: logs_written_def print_lines_def)

lemma example_world_quiet: "\<not> interrupted_send example_world" "logs_written example_world"
  by (simp_all add: interrupted_send_def interrupted_sampling_def logs_written_def
      print_lines_def example_world_def)

lemma build_payload_Inr:
  "get_system_metrics a w = Inr m \<Longrightarrow> \<exists>p. build_payload a w = Inr p"
  by (simp add: build_payload_def bind_r_def Let_def)




lemma send_heartbeat_quiet:
  assumes "\<not> interrupted_send w" and "logs_written w"
  shows "send_heartbeat a w =
           Inr (case http_post w of Inl _ \<Rightarrow> False
                | Inr response \<Rightarrow> status_code response = 200 \<and> json_parses response)"
proof -
  note l = logs_written_lines [OF assms(2)]
  from assms(1) have "\<not> interrupted_sampling w"
    by (simp add: interrupted_send_def)
  then obtain m where "get_system_metrics a w = Inr m"
    using get_system_metrics_returns [OF _ l(1)] by blast
  then obtain p where p: "build_payload a w = Inr p"
    using build_payload_Inr by blast
  from assms(1) have q: "http_post w \<noteq> Inl KeyboardInterrupt"
    by (simp add: interrupted_send_def)
  show ?thesis
  proof (cases "http_post w")
    case (Inl x)
    with q have "x = Error" by (cases x) simp_all
    with Inl p l show ?thesis
      by (simp add: send_heartbeat_def bind_r_def except_Exception_def)
  next
    case (Inr response)
    with p l show ?thesis
      by (simp add: send_heartbeat_def bind_r_def except_Exception_def response_json_def)
  qed
qed

lemma simulate_keeps_interval:
  "heartbeat_interval (fst (simulate_task_activity a w d)) = heartbeat_interval a"
  by (cases d) (simp add: simulate_task_activity_def split: sum.splits)

lemma simulate_bounds:
  "0 \<le> current_tasks a \<and> current_tasks a \<le> 5 \<Longrightarrow>
   0 \<le> current_tasks (fst (simulate_task_activity a w d)) \<and>
   current_tasks (fst (simulate_task_activity a w d)) \<le> 5"
  by (cases d) (auto simp: simulate_task_activity_def split: sum.splits)

lemma simulate_quiet:
  "logs_written w \<Longrightarrow> snd (simulate_task_activity a w d) = Inr ()"
  by (cases d) (simp add: simulate_task_activity_def logs_written_lines)

lemma handle_exn_agent: "fst (handle_exn a e x) = a"
  by (simp add: handle_exn_def split: exn.splits sum.splits)

lemma iteration_agent:
  "fst (iteration a e) = a \<or>
   fst (iteration a e) = fst (simulate_task_activity a (world_of e) (draws e))"
  by (cases "simulate_task_activity a (world_of e) (draws e)")
    (simp add: iteration_def handle_exn_agent split: sum.splits)

lemma iteration_bounds:
  assumes "0 \<le> current_tasks a \<and> current_tasks a \<le> 5"
  shows "0 \<le> current_tasks (fst (iteration a e)) \<and> current_tasks (fst (iteration a e)) \<le> 5"
  using assms simulate_bounds [OF assms, of "world_of e" "draws e"] iteration_agent [of a e]
  by auto

lemma negative_interval_crashes:
  assumes "heartbeat_interval a < 0" and "quiet e"
  shows "iteration a e
           = (fst (simulate_task_activity a (world_of e) (draws e)), [], Propagate Error)"
proof -
  from assms(2) have i: "\<not> interrupted_send (world_of e)" and l: "logs_written (world_of e)"
    by (simp_all add: quiet_def)
  obtain b where b: "send_heartbeat a (world_of e) = Inr b"
    using send_heartbeat_quiet [OF i l] by simp
  obtain a' r where s: "simulate_task_activity a (world_of e) (draws e) = (a', r)"
    by (cases "simulate_task_activity a (world_of e) (draws e)") auto
  with simulate_quiet [OF l, of a "draws e"] have r: "r = Inr ()" by simp
  from s simulate_keeps_interval [of a "world_of e" "draws e"] assms(1)
  have n: "heartbeat_interval a' < 0" by simp
  show ?thesis
    using b s r n logs_written_lines [OF l]
    by (simp add: iteration_def handle_exn_def time_sleep_def)
qed

lemma loop_Continue:
  "iteration a e = (a', sl, Continue) \<Longrightarrow>
   loop a (e # es) = (fst (loop a' es), sl @ fst (snd (loop a' es)), snd (snd (loop a' es)))"
  by (simp split: prod.splits)

lemma loop_Break: "iteration a e = (a', sl, Break) \<Longrightarrow> loop a (e # es) = (a', sl, Stopped)"
  by simp

lemma loop_Propagate:
  "iteration a e = (a', sl, Propagate x) \<Longrightarrow> loop a (e # es) = (a', sl, Crashed x)"
  by simp

lemma loop_bounds:
  "0 \<le> current_tasks a \<and> current_tasks a \<le> 5 \<Longrightarrow>
   0 \<le> current_tasks (fst (loop a es)) \<and> current_tasks (fst (loop a es)) \<le> 5"
proof (induction es arbitrary: a)
  case Nil
  then show ?case by simp
next
  case (Cons e es)
  obtain a' sl c where it: "iteration a e = (a', sl, c)"
    by (cases "iteration a e") auto
  with iteration_bounds [OF Cons.prems, of e]
  have b: "0 \<le> current_tasks a' \<and> current_tasks a' \<le> 5" by simp
  show ?case
  proof (cases c)
    case Continue
    with it have "loop a (e # es)
        = (fst (loop a' es), sl @ fst (snd (loop a' es)), snd (snd (loop a' es)))"
      by (simp only: loop_Continue)
    with Cons.IH [OF b] show ?thesis by simp
  next
    case Break
    with it have "loop a (e # es) = (a', sl, Stopped)" by (simp only: loop_Break)
    with b show ?thesis by simp
  next
    case (Propagate x)
    with it have "loop a (e # es) = (a', sl, Crashed x)" by (simp only: loop_Propagate)
    with b show ?thesis by simp
  qed
qed

lemma run_bounds:
  assumes "0 \<le> current_tasks a \<and> current_tasks a \<le> 5"
  shows "0 \<le> current_tasks (fst (run a es)) \<and> current_tasks (fst (run a es)) \<le> 5"
proof (cases es)
  case Nil
  with assms show ?thesis by simp
next
  case (Cons e es')
  show ?thesis
  proof (cases "print_at (world_of e) 181")
    case (Inl x)
    with Cons assms show ?thesis by simp
  next
    case (Inr u)
    with Cons have "run a es = loop a es" by simp
    with loop_bounds [OF assms, of es] show ?thesis by simp
  qed
qed

subsection \<open>Claims on the heartbeat and the loop\<close>




text \<open>
  C6. The code at the interval -1: no interrupt arrives, every line is printed and the
  dashboard answers 200, yet the first pass leaves \<open>run\<close> with the \<open>ValueError\<close> of
  \<open>time.sleep\<close>, raised in the body, caught by the handler of the loop and raised once
  more by the sleep of that handler. No sleep is completed and the second pass never
  starts.
\<close>

theorem run_negative_interval:
  "heartbeat_interval negative_agent = - 1 \<and> quiet quiet_pass \<and>
   run negative_agent [quiet_pass, quiet_pass]
     = (negative_agent\<lparr>current_tasks := 1\<rparr>, [], Crashed Error)"
proof -
  have h: "heartbeat_interval negative_agent = - 1"
    by (simp add: negative_agent_def init_agent_def)
  have q: "quiet quiet_pass"
    using example_world_quiet by (simp add: quiet_def quiet_pass_def)
  have "fst (simulate_task_activity negative_agent (world_of quiet_pass) (draws quiet_pass))
      = negative_agent\<lparr>current_tasks := 1\<rparr>"
    by (simp add: simulate_task_activity_def quiet_pass_def example_world_def
        negative_agent_def init_agent_def)
  then have "iteration negative_agent quiet_pass
      = (negative_agent\<lparr>current_tasks := 1\<rparr>, [], Propagate Error)"
    using negative_interval_crashes [OF _ q, of negative_agent] h by simp
  then have "loop negative_agent [quiet_pass, quiet_pass]
      = (negative_agent\<lparr>current_tasks := 1\<rparr>, [], Crashed Error)"
    by (rule loop_Propagate)
  moreover have "print_at (world_of quiet_pass) 181 = Inr ()"
    by (simp add: quiet_pass_def example_world_def)
  ultimately show ?thesis
    using h q by simp
qed

text \<open>
  C7. From the initial state, after any passes of the loop, with any draws and any
  outcomes, \<open>current_tasks\<close> is between 0 and 5.
\<close>

theorem current_tasks_bounded:
  "0 \<le> current_tasks (fst (run (init_agent aid atype url interval) es)) \<and>
   current_tasks (fst (run (init_agent aid atype url interval) es)) \<le> 5"
  by (rule run_bounds) (simp add: init_agent_def)

end
